theory Spec2Isabelle
  imports Complex_Main
begin

section \<open>JavaScript values used by the payment flow\<close>

text \<open>
  A JavaScript number is a finite value, one of the two infinities, or NaN. Finite values
  are kept exact; the functions that produce numbers from text (\<open>parseFloat\<close>) are
  supplied by the environment, so rounding to double precision is theirs to decide.
\<close>

datatype jsnum = NaN | Fin rat | PosInf | NegInf

text \<open>Truthiness of a number: \<open>0\<close> and \<open>NaN\<close> are falsy.\<close>

definition truthyNum :: "jsnum \<Rightarrow> bool" where
  "truthyNum n = (n \<noteq> NaN \<and> n \<noteq> Fin 0)"

text \<open>The operator \<open>!==\<close> on two numbers: \<open>NaN\<close> differs from everything, itself included.\<close>

definition strictNeqNum :: "jsnum \<Rightarrow> jsnum \<Rightarrow> bool" where
  "strictNeqNum a b = (a = NaN \<or> b = NaN \<or> a \<noteq> b)"

text \<open>The greater-than operator on two numbers.\<close>

fun gtNum :: "jsnum \<Rightarrow> jsnum \<Rightarrow> bool" where
  "gtNum NaN _ = False"
| "gtNum _ NaN = False"
| "gtNum (Fin a) (Fin b) = (a > b)"
| "gtNum PosInf PosInf = False"
| "gtNum PosInf _ = True"
| "gtNum NegInf _ = False"
| "gtNum (Fin a) NegInf = True"
| "gtNum (Fin a) PosInf = False"

text \<open>The less-or-equal operator on two numbers.\<close>

fun leNum :: "jsnum \<Rightarrow> jsnum \<Rightarrow> bool" where
  "leNum NaN _ = False"
| "leNum _ NaN = False"
| "leNum a b = (\<not> gtNum a b)"

text \<open>Multiplication of a number by a positive finite constant.\<close>

fun timesPos :: "jsnum \<Rightarrow> rat \<Rightarrow> jsnum" where
  "timesPos NaN _ = NaN"
| "timesPos (Fin a) k = Fin (a * k)"
| "timesPos PosInf _ = PosInf"
| "timesPos NegInf _ = NegInf"

text \<open>
  Values of fields in the processor's JSON responses, where the code compares against
  constants of several types (\<open>data.status === 'true' || data.status === true\<close>).
\<close>

datatype jsval = JUndefined | JNull | JBool bool | JNum jsnum | JStr string | JObject

fun truthy :: "jsval \<Rightarrow> bool" where
  "truthy JUndefined = False"
| "truthy JNull = False"
| "truthy (JBool b) = b"
| "truthy (JNum n) = truthyNum n"
| "truthy (JStr s) = (s \<noteq> [])"
| "truthy JObject = True"

text \<open>\<open>ToNumber\<close> on the primitives; text and objects are converted by the environment.\<close>

fun toNumber :: "(jsval \<Rightarrow> jsnum) \<Rightarrow> jsval \<Rightarrow> jsnum" where
  "toNumber conv JUndefined = NaN"
| "toNumber conv JNull = Fin 0"
| "toNumber conv (JBool b) = (if b then Fin 1 else Fin 0)"
| "toNumber conv (JNum n) = n"
| "toNumber conv v = conv v"

text \<open>
  Fields of request bodies are text or absent, as the route documentation declares them:
  \<open>None\<close> is an absent field (\<open>undefined\<close>). The empty string and the absent field
  are the falsy ones.
\<close>

definition truthyStr :: "string option \<Rightarrow> bool" where
  "truthyStr v = (case v of None \<Rightarrow> False | Some s \<Rightarrow> s \<noteq> [])"

text \<open>The operator \<open>||\<close> on two optional strings.\<close>

definition orElse :: "string option \<Rightarrow> string option \<Rightarrow> string option" where
  "orElse a b = (if truthyStr a then a else b)"

text \<open>The operator \<open>||\<close> with a string literal as the fallback.\<close>

definition strOr :: "string option \<Rightarrow> string \<Rightarrow> string" where
  "strOr a d = (case a of None \<Rightarrow> d | Some s \<Rightarrow> if s = [] then d else s)"

text \<open>\<open>String.prototype.toLowerCase\<close> on the ASCII letters.\<close>

definition lowerChar :: "char \<Rightarrow> char" where
  "lowerChar c =
     (case map_of (zip ''ABCDEFGHIJKLMNOPQRSTUVWXYZ'' ''abcdefghijklmnopqrstuvwxyz'') c of
        None \<Rightarrow> c
      | Some l \<Rightarrow> l)"

definition toLowerCase :: "string \<Rightarrow> string" where
  "toLowerCase s = map lowerChar s"

text \<open>The test \<open>v && v.toLowerCase() === t\<close>.\<close>

definition lowerIs :: "string option \<Rightarrow> string \<Rightarrow> bool" where
  "lowerIs v t = (case v of None \<Rightarrow> False | Some s \<Rightarrow> s \<noteq> [] \<and> toLowerCase s = t)"

text \<open>\<open>String.prototype.trim\<close> on the ASCII white space.\<close>

definition isSpace :: "char \<Rightarrow> bool" where
  "isSpace c = (c \<in> set [CHR '' '', CHR 0x09, CHR 0x0A, CHR 0x0B, CHR 0x0C, CHR 0x0D])"

definition trim :: "string \<Rightarrow> string" where
  "trim s = rev (dropWhile isSpace (rev (dropWhile isSpace s)))"

text \<open>The first position of a list whose element satisfies a test.\<close>

fun findIndex :: "('a \<Rightarrow> bool) \<Rightarrow> 'a list \<Rightarrow> nat option" where
  "findIndex P [] = None"
| "findIndex P (x # xs) = (if P x then Some 0 else map_option Suc (findIndex P xs))"

section \<open>The donation document (models/Donation)\<close>

datatype paymentStatus = PENDING | SUCCESS | FAILED

datatype legacyStatus = pending | completed | failed

text \<open>The descriptive fields of a donation, which the payment flow stores and never reads.\<close>

record details =
  state :: "string option"
  city :: "string option"
  pinCode :: "string option"
  address :: "string option"
  seek80G :: "string option"
  reasonForDonation :: "string option"
  purpose :: "string option"
  panCardNumber :: "string option"
  ipAddress :: "string option"
  userAgent :: "string option"

text \<open>
  What \<open>createOrder\<close> keeps of the processor's answer (\<open>mswipeResponse\<close>): the
  transaction id, and the response code, message, content and notes, which are copied and
  never read.
\<close>

record mswipeResponse =
  txn_id :: "string option"
  copied :: "jsval list"

text \<open>
  The \<open>callback\<close> entry that \<open>handleCallback\<close> adds to the stored response; the card,
  response-code, date, merchant, terminal and note fields are copied and never read.
\<close>

record callbackInfo =
  cb_ipgId :: "string option"
  cb_transactionRef :: "string option"
  cb_copied :: "string option list"
  cb_rawStatus :: "string option"

text \<open>
  The data of a status check (\<open>statusResult.data\<close> of \<open>checkTransactionStatus\<close>); the
  amount, customer, merchant, terminal, description, order, date, card and payment-type
  fields are copied and never read.
\<close>

record statusData =
  sd_ipgId :: "string option"
  sd_status :: paymentStatus
  sd_statusCode :: jsval
  sd_paymentId :: "string option"
  sd_copied :: "jsval list"

text \<open>
  \<open>mswipePaymentResponse\<close> is a mixed object: the link-creation answer, to which the
  callback and the status check each add one entry by object spread.
\<close>

record paymentResponse =
  linkResponse :: "mswipeResponse option"
  callback :: "callbackInfo option"
  statusCheck :: "statusData option"

record donation =
  fullName :: "string option"
  email :: "string option"
  phoneNumber :: "string option"
  info :: details
  amount :: jsnum
  donationRef :: string
  paymentGateway :: string
  paymentStatus :: paymentStatus
  status :: legacyStatus
  mswipeOrderId :: "string option"
  mswipeTransactionRef :: "string option"
  mswipeIpgId :: "string option"
  mswipeTransId :: "string option"
  mswipePaymentResponse :: "paymentResponse option"
  createdAt :: nat
  updatedAt :: nat

section \<open>The world: stored donations, the token cache, calls made, mails sent\<close>

text \<open>Every HTTP request to the processor is recorded, with the identifier it carries.\<close>

datatype apiCall =
    CreatePBLAuthToken
  | MswipePayment string
  | GetPBLTransactionDetails string

text \<open>
  \<open>mails\<close> records each call of \<open>sendDonationEmail\<close>: the address and the donation
  reference.
\<close>

record world =
  donations :: "donation list"
  cachedToken :: jsval
  tokenExpiry :: "jsnum option"
  calls :: "apiCall list"
  mails :: "(string option \<times> string) list"

text \<open>
  The answer of one HTTP request: \<open>axios.post\<close> throws (with the message the handler
  finds in the error, if any), or returns the parsed body.
\<close>

datatype 'a http = Throws "string option" | Response 'a

record tokenData =
  t_status :: jsval
  t_token :: jsval
  t_msg :: "string option"

record paymentData =
  p_status :: jsval
  p_smslink :: "string option"
  p_txn_id :: "string option"
  p_responsemessage :: "string option"
  p_copied :: "jsval list"

record txnData =
  t_IPG_ID :: "string option"
  Payment_Status :: jsval
  Payment_Id :: "string option"
  t_copied :: "jsval list"

record statusResponse =
  s_Status :: jsval
  s_Data :: "txnData list option"
  s_ResponseMessage :: "string option"

text \<open>
  What decoding the middle part of a token as a JWT payload gives: an exception somewhere
  in \<open>split\<close>, \<open>Buffer.from\<close>, \<open>JSON.parse\<close> or the property access, or the value of
  the payload's \<open>exp\<close> property (\<open>JUndefined\<close> when the payload has none).
\<close>

datatype jwt = DecodeFails | Payload jsval

text \<open>
  The environment of one request: the clock (read when the request starts, and again
  after the token request), the random draws, the process environment variables, the
  library functions, and what the processor answers to each request.
\<close>

record env =
  dateNow :: nat
  dateLater :: nat
  randomRef :: nat
  randomOrder :: nat
  randomRequest :: nat
  userId :: "string option"
  clientId :: "string option"
  password :: "string option"
  custCode :: "string option"
  frontendUrl :: "string option"
  parseFloat :: "string \<Rightarrow> jsnum"
  convNumber :: "jsval \<Rightarrow> jsnum"
  isEmail :: "string \<Rightarrow> bool"
  escape :: "string \<Rightarrow> string"
  sha256 :: "string \<Rightarrow> string"
  transIdOf :: "string \<Rightarrow> string option"
  decodeJwt :: "jsval \<Rightarrow> jwt"
  tokenAnswer :: "tokenData http"
  paymentAnswer :: "paymentData http"
  statusAnswer :: "statusResponse http"

section \<open>The processor client (services/mswipeService)\<close>

definition isConfigured :: "env \<Rightarrow> bool" where
  "isConfigured e =
     (truthyStr (userId e) \<and> truthyStr (clientId e) \<and> truthyStr (password e)
      \<and> truthyStr (custCode e))"

text \<open>Decimal digits of a natural number, and \<open>padStart(n, '0')\<close>.\<close>

fun decimal :: "nat \<Rightarrow> string" where
  "decimal n =
     (if n < 10 then [''0123456789'' ! n]
      else decimal (n div 10) @ [''0123456789'' ! (n mod 10)])"

definition padStart :: "nat \<Rightarrow> string \<Rightarrow> string" where
  "padStart n s = replicate (n - length s) (CHR ''0'') @ s"

definition generateOrderId :: "env \<Rightarrow> string" where
  "generateOrderId e = ''CMV'' @ decimal (dateNow e) @ padStart 4 (decimal (randomOrder e))"

definition generateRequestId :: "env \<Rightarrow> string" where
  "generateRequestId e =
     ''REQ'' @ decimal (dateNow e) @ padStart 5 (decimal (randomRequest e))"

datatype tokenResult = TokenFailed string | TokenOk jsval

text \<open>
  \<open>generateToken\<close>: the cached token is returned when both cache fields are truthy and
  the expiry is more than one hour (in milliseconds) after now; otherwise one request is
  made, and on a success flag the token is stored with the expiry read from the token,
  or 25 days after now when reading it throws.
\<close>

definition bufferTime :: rat where
  "bufferTime = 60 * 60 * 1000"

definition defaultExpiry :: rat where
  "defaultExpiry = 25 * 24 * 60 * 60 * 1000"

definition cacheValid :: "env \<Rightarrow> world \<Rightarrow> bool" where
  "cacheValid e w =
     (truthy (cachedToken w) \<and>
      (case tokenExpiry w of
         None \<Rightarrow> False
       | Some x \<Rightarrow> truthyNum x \<and> gtNum x (Fin (of_nat (dateNow e) + bufferTime))))"

definition generateToken :: "env \<Rightarrow> world \<Rightarrow> tokenResult \<times> world" where
  "generateToken e w =
     (if cacheValid e w then (TokenOk (cachedToken w), w)
      else
        let w1 = w\<lparr>calls := calls w @ [CreatePBLAuthToken]\<rparr> in
        case tokenAnswer e of
          Throws m \<Rightarrow> (TokenFailed (strOr m ''Token generation failed''), w1)
        | Response data \<Rightarrow>
            if t_status data = JStr ''true'' \<or> t_status data = JBool True then
              (TokenOk (t_token data),
               w1\<lparr>cachedToken := t_token data,
                  tokenExpiry := Some
                    (case decodeJwt e (t_token data) of
                       Payload ex \<Rightarrow> timesPos (toNumber (convNumber e) ex) 1000
                     | DecodeFails \<Rightarrow> Fin (of_nat (dateLater e) + defaultExpiry))\<rparr>)
            else
              (TokenFailed (strOr (t_msg data) ''Token generation failed''), w1))"


text \<open>\<open>createOrder\<close>: the payment link for one order.\<close>

record orderData =
  od_name :: "string option"
  od_email :: "string option"
  od_mobile :: "string option"
  od_amount :: jsnum
  od_orderId :: string
  od_donationRef :: string
  od_purpose :: "string option"

record orderOk =
  paymentUrl :: string
  txnId :: "string option"
  transId :: "string option"
  requestId :: string
  mswipeResp :: mswipeResponse

datatype orderResult = OrderFailed string | OrderOk orderOk

definition createOrder :: "env \<Rightarrow> orderData \<Rightarrow> world \<Rightarrow> orderResult \<times> world" where
  "createOrder e od w =
     (if \<not> (truthyStr (od_name od) \<and> truthyStr (od_email od) \<and> truthyStr (od_mobile od)
            \<and> truthyNum (od_amount od) \<and> od_orderId od \<noteq> [])
      then (OrderFailed ''Missing required fields for payment link creation'', w)
      else
        case generateToken e w of
          (TokenFailed err, w1) \<Rightarrow> (OrderFailed (''Token generation failed: '' @ err), w1)
        | (TokenOk tok, w1) \<Rightarrow>
            let w2 = w1\<lparr>calls := calls w1 @ [MswipePayment (od_orderId od)]\<rparr> in
            case paymentAnswer e of
              Throws m \<Rightarrow> (OrderFailed (strOr m ''Failed to create payment link''), w2)
            | Response data \<Rightarrow>
                if p_status data = JStr ''True'' \<or> p_status data = JBool True
                   \<or> p_status data = JStr ''true''
                then
                  (case p_smslink data of
                     None \<Rightarrow> (OrderFailed ''No payment link returned from Mswipe'', w2)
                   | Some url \<Rightarrow>
                       if url = [] then (OrderFailed ''No payment link returned from Mswipe'', w2)
                       else
                         (OrderOk \<lparr>paymentUrl = url, txnId = p_txn_id data,
                                   transId = transIdOf e url,
                                   requestId = generateRequestId e,
                                   mswipeResp = \<lparr>txn_id = p_txn_id data,
                                                 copied = p_copied data\<rparr>\<rparr>, w2))
                else
                  (OrderFailed (strOr (p_responsemessage data) ''Payment link creation failed''),
                   w2))"

text \<open>
  \<open>verifyCallback\<close>: the BackPosting payload. \<open>c_stored\<close> holds the card, response-code,
  date, merchant, terminal and note fields, \<open>c_contact\<close> the customer and merchant-name
  fields; both are copied and never read.
\<close>

record callbackData =
  IPG_ID :: "string option"
  ME_InvNo :: "string option"
  TRAN_STATUS :: "string option"
  TranAmount :: "string option"
  RRN :: "string option"
  c_stored :: "string option list"
  c_contact :: "string option list"

record verification =
  orderId :: "string option"
  ipgId :: "string option"
  v_status :: paymentStatus
  transactionRef :: "string option"
  v_amount :: "jsnum option"
  v_stored :: "string option list"
  v_contact :: "string option list"

datatype verifyResult = Invalid string | Valid verification

definition verifyCallback :: "env \<Rightarrow> callbackData \<Rightarrow> verifyResult" where
  "verifyCallback e cb =
     (if \<not> truthyStr (ME_InvNo cb) \<and> \<not> truthyStr (IPG_ID cb)
      then Invalid ''Missing order/invoice ID in callback''
      else Valid
        \<lparr>orderId = ME_InvNo cb,
         ipgId = IPG_ID cb,
         v_status =
           (if lowerIs (TRAN_STATUS cb) ''approved'' then SUCCESS
            else if lowerIs (TRAN_STATUS cb) ''pending'' then PENDING
            else FAILED),
         transactionRef = orElse (RRN cb) (IPG_ID cb),
         v_amount =
           (case TranAmount cb of
              None \<Rightarrow> None
            | Some t \<Rightarrow> if t = [] then None else Some (parseFloat e t)),
         v_stored = c_stored cb,
         v_contact = c_contact cb\<rparr>)"

text \<open>
  \<open>checkTransactionStatus\<close>: one status request; \<open>Payment_Status\<close> 1 is a success, 2 is
  pending, anything else a failure.
\<close>

datatype statusResult = StatusFailed string | StatusOk statusData

definition checkTransactionStatus ::
  "env \<Rightarrow> string option \<Rightarrow> world \<Rightarrow> statusResult \<times> world" where
  "checkTransactionStatus e tid w =
     (case tid of
        None \<Rightarrow> (StatusFailed ''Transaction ID is required'', w)
      | Some t \<Rightarrow>
          if t = [] then (StatusFailed ''Transaction ID is required'', w)
          else
            let w1 = w\<lparr>calls := calls w @ [GetPBLTransactionDetails t]\<rparr> in
            case statusAnswer e of
              Throws m \<Rightarrow> (StatusFailed (strOr m ''Status check failed''), w1)
            | Response data \<Rightarrow>
                if s_Status data = JStr ''True'' \<or> s_Status data = JBool True then
                  (case s_Data data of
                     None \<Rightarrow> (StatusFailed ''No transaction data returned'', w1)
                   | Some [] \<Rightarrow> (StatusFailed ''No transaction data returned'', w1)
                   | Some (txn # _) \<Rightarrow>
                       (StatusOk
                          \<lparr>sd_ipgId = t_IPG_ID txn,
                           sd_status =
                             (if Payment_Status txn = JNum (Fin 1) then SUCCESS
                              else if Payment_Status txn = JNum (Fin 2) then PENDING
                              else FAILED),
                           sd_statusCode = Payment_Status txn,
                           sd_paymentId = Payment_Id txn,
                           sd_copied = t_copied txn\<rparr>, w1))
                else
                  (StatusFailed (strOr (s_ResponseMessage data) ''Status check failed''), w1))"


section \<open>The payment controller (controllers/mswipeController)\<close>

text \<open>
  The controller's three operations take the environment of the request, the request and
  the world, and return the HTTP response with the new world. The store is the list of
  documents: \<open>findOne\<close> gives the position of the first document whose field equals
  the value asked for (an absent value matches the documents that lack the field), and
  \<open>save\<close> writes the document back at its position. The store itself does not fail
  here, so the handlers' last resort, the 500 answer of their \<open>catch\<close> blocks, is left
  to the one place where the schema rejects a new document. Calls of the logger change
  nothing and are left out.
\<close>

text \<open>The JSON bodies the controller sends, one constructor for each shape.\<close>

datatype body =
    ErrorBody string
  | ErrorRef string string
  | ErrorsBody "string list"
  | ErrorStatus string paymentStatus
  | InitiateOk string string string
  | AlreadyProcessed paymentStatus
  | CallbackDone bool paymentStatus string string
  | VerifyDone string paymentStatus statusData jsnum "string option" nat

datatype qparam = QText string | QNumber jsnum

datatype response = Json nat body | Redirect string "(string \<times> qparam) list"

fun statusLower :: "paymentStatus \<Rightarrow> string" where
  "statusLower PENDING = ''pending''"
| "statusLower SUCCESS = ''success''"
| "statusLower FAILED = ''failed''"

text \<open>
  \<open>donation.save()\<close> on a stored document, found at position \<open>i\<close>: the pre-save hook
  sets \<open>updatedAt\<close>.
\<close>

definition save :: "env \<Rightarrow> nat \<Rightarrow> donation \<Rightarrow> world \<Rightarrow> world" where
  "save e i d w = w\<lparr>donations := (donations w)[i := d\<lparr>updatedAt := dateNow e\<rparr>]\<rparr>"

definition sendDonationEmail :: "donation \<Rightarrow> world \<Rightarrow> world" where
  "sendDonationEmail d w = w\<lparr>mails := mails w @ [(email d, donationRef d)]\<rparr>"

text \<open>The object spread \<open>{...donation.mswipePaymentResponse, key: value}\<close>.\<close>

definition spread :: "paymentResponse option \<Rightarrow> paymentResponse" where
  "spread r =
     (case r of
        None \<Rightarrow> \<lparr>linkResponse = None, callback = None, statusCheck = None\<rparr>
      | Some x \<Rightarrow> x)"

subsection \<open>handleCallback\<close>

definition handleCallback :: "env \<Rightarrow> callbackData \<Rightarrow> world \<Rightarrow> response \<times> world" where
  "handleCallback e cb w =
     (case verifyCallback e cb of
        Invalid err \<Rightarrow> (Json 400 (ErrorBody ''Invalid callback data''), w)
      | Valid v \<Rightarrow>
          (case findIndex (\<lambda>d. mswipeOrderId d = orderId v) (donations w) of
             None \<Rightarrow> (Json 404 (ErrorBody ''Donation not found''), w)
           | Some i \<Rightarrow>
               let d = donations w ! i in
               if paymentStatus d \<noteq> PENDING then
                 (if truthyStr (frontendUrl e)
                  then Redirect (strOr (frontendUrl e) [])
                         [(''status'', QText (statusLower (paymentStatus d))),
                          (''ref'', QText (donationRef d))]
                  else Json 200 (AlreadyProcessed (paymentStatus d)), w)
               else if (case v_amount v of
                          None \<Rightarrow> False
                        | Some a \<Rightarrow> truthyNum a \<and> strictNeqNum a (amount d))
               then
                 (Json 400 (ErrorBody ''Amount verification failed''),
                  save e i (d\<lparr>paymentStatus := FAILED, status := failed\<rparr>) w)
               else
                 let d1 = d\<lparr>paymentStatus := v_status v,
                            status := (if v_status v = SUCCESS then completed else failed),
                            mswipeTransactionRef := transactionRef v,
                            mswipeIpgId := ipgId v,
                            mswipePaymentResponse := Some
                              ((spread (mswipePaymentResponse d))
                                 \<lparr>callback := Some
                                    \<lparr>cb_ipgId = ipgId v,
                                     cb_transactionRef = transactionRef v,
                                     cb_copied = v_stored v,
                                     cb_rawStatus = TRAN_STATUS cb\<rparr>\<rparr>),
                            updatedAt := dateNow e\<rparr>;
                     w1 = save e i d1 w;
                     w2 = (if paymentStatus d1 = SUCCESS then sendDonationEmail d1 w1 else w1)
                 in
                 (if truthyStr (frontendUrl e)
                  then Redirect (strOr (frontendUrl e) [])
                         [(''status'', QText (statusLower (paymentStatus d1))),
                          (''ref'', QText (donationRef d1)),
                          (''amount'', QNumber (amount d1))]
                  else Json 200
                         (CallbackDone (paymentStatus d1 = SUCCESS) (paymentStatus d1)
                            (donationRef d1)
                            (if paymentStatus d1 = SUCCESS then ''Payment successful''
                             else ''Payment failed'')), w2)))"

subsection \<open>verifyTransaction\<close>

definition verifyTransaction :: "env \<Rightarrow> string \<Rightarrow> world \<Rightarrow> response \<times> world" where
  "verifyTransaction e ref w =
     (if ref = [] then (Json 400 (ErrorBody ''Donation reference is required''), w)
      else
        case findIndex (\<lambda>d. donationRef d = ref) (donations w) of
          None \<Rightarrow> (Json 404 (ErrorBody ''Donation not found''), w)
        | Some i \<Rightarrow>
            let d = donations w ! i in
            if \<not> truthyStr (mswipeTransId d) then
              (Json 400
                 (ErrorStatus ''Transaction ID not available for verification''
                    (paymentStatus d)), w)
            else
              case checkTransactionStatus e (mswipeTransId d) w of
                (StatusFailed err, w1) \<Rightarrow>
                  (Json 500
                     (ErrorStatus ''Failed to verify transaction status'' (paymentStatus d)),
                   w1)
              | (StatusOk sd, w1) \<Rightarrow>
                  if paymentStatus d = PENDING \<and> sd_status sd \<noteq> PENDING then
                    let d1 = d\<lparr>paymentStatus := sd_status sd,
                               status := (if sd_status sd = SUCCESS then completed else failed),
                               mswipeTransactionRef := orElse (sd_paymentId sd) (sd_ipgId sd),
                               mswipeIpgId := sd_ipgId sd,
                               mswipePaymentResponse := Some
                                 ((spread (mswipePaymentResponse d))\<lparr>statusCheck := Some sd\<rparr>),
                               updatedAt := dateNow e\<rparr>;
                        w2 = save e i d1 w1;
                        w3 = (if sd_status sd = SUCCESS then sendDonationEmail d1 w2 else w2)
                    in
                    (Json 200
                       (VerifyDone (donationRef d1) (paymentStatus d1) sd (amount d1)
                          (mswipeTransactionRef d1) (updatedAt d1)), w3)
                  else
                    (Json 200
                       (VerifyDone (donationRef d) (paymentStatus d) sd (amount d)
                          (mswipeTransactionRef d) (updatedAt d)), w1))"

subsection \<open>initiatePayment\<close>

text \<open>
  The request of \<open>initiatePayment\<close>: the validated fields, and in \<open>b_info\<close> the other
  fields of the body together with the caller's address and user agent from the headers.
\<close>

record initiateBody =
  b_fullName :: "string option"
  b_email :: "string option"
  b_phoneNumber :: "string option"
  b_amount :: "jsnum option"
  b_info :: details

definition generateDonationRef :: "env \<Rightarrow> string" where
  "generateDonationRef e = ''CMV'' @ decimal (dateNow e) @ decimal (randomRef e)"

definition sanitizeInput :: "env \<Rightarrow> string option \<Rightarrow> string option" where
  "sanitizeInput e v = map_option (\<lambda>s. escape e (trim s)) v"

definition isDigit :: "char \<Rightarrow> bool" where
  "isDigit c = (c \<in> set ''0123456789'')"

definition digitValue :: "char \<Rightarrow> nat" where
  "digitValue c = (case map_of (zip ''0123456789'' [0, 1, 2, 3, 4, 5, 6, 7, 8, 9]) c of
                     None \<Rightarrow> 0
                   | Some v \<Rightarrow> v)"

definition validationErrors :: "env \<Rightarrow> initiateBody \<Rightarrow> string list" where
  "validationErrors e b =
     (case b_fullName b of
        None \<Rightarrow> [''fullName is required'']
      | Some s \<Rightarrow> if s = [] \<or> trim s = [] then [''fullName is required''] else [])
     @ (case b_email b of
          None \<Rightarrow> [''Valid email is required'']
        | Some s \<Rightarrow> if s = [] \<or> \<not> isEmail e s then [''Valid email is required''] else [])
     @ (case b_phoneNumber b of
          None \<Rightarrow> [''Valid 10-digit phone number is required'']
        | Some s \<Rightarrow>
            if length s = 10 \<and> list_all isDigit s then []
            else [''Valid 10-digit phone number is required''])
     @ (case b_amount b of
          None \<Rightarrow> [''Amount must be greater than 0'']
        | Some a \<Rightarrow>
            if \<not> truthyNum a \<or> leNum a (Fin 0) then [''Amount must be greater than 0'']
            else [])"

text \<open>
  \<open>new Donation(donationData)\<close>: the schema's setters trim the text fields, lower-case
  the address of the donor and hash the PAN.
\<close>

definition newDonation :: "env \<Rightarrow> initiateBody \<Rightarrow> string \<Rightarrow> string \<Rightarrow> donation" where
  "newDonation e b ref oid =
     \<lparr>fullName = map_option trim (sanitizeInput e (b_fullName b)),
      email = map_option (\<lambda>s. toLowerCase (trim s)) (sanitizeInput e (b_email b)),
      phoneNumber = map_option trim (sanitizeInput e (b_phoneNumber b)),
      info = (b_info b)
        \<lparr>state := map_option trim (sanitizeInput e (state (b_info b))),
         city := map_option trim (sanitizeInput e (city (b_info b))),
         pinCode := map_option trim (sanitizeInput e (pinCode (b_info b))),
         address := map_option trim (sanitizeInput e (address (b_info b))),
         purpose := sanitizeInput e (purpose (b_info b)),
         panCardNumber :=
           (if truthyStr (panCardNumber (b_info b))
            then map_option (sha256 e) (panCardNumber (b_info b)) else None),
         userAgent := Some (strOr (userAgent (b_info b)) [])\<rparr>,
      amount = (case b_amount b of None \<Rightarrow> NaN | Some a \<Rightarrow> a),
      donationRef = ref,
      paymentGateway = ''mswipe'',
      paymentStatus = PENDING,
      status = pending,
      mswipeOrderId = Some oid,
      mswipeTransactionRef = None,
      mswipeIpgId = None,
      mswipeTransId = None,
      mswipePaymentResponse = None,
      createdAt = dateNow e,
      updatedAt = dateNow e\<rparr>"

text \<open>The schema's validators, run by the first \<open>save\<close>.\<close>

definition allowedReasons :: "string list" where
  "allowedReasons =
     [''Gurudakshina'', ''General Donation'', ''Event Sponsorship'', ''Building Fund'',
      ''Educational Support'', ''Community Service'', ''Special Occasion'', ''Other'']"

definition schemaAccepts :: "donation \<Rightarrow> bool" where
  "schemaAccepts d =
     (truthyStr (fullName d) \<and> truthyStr (email d) \<and> truthyStr (phoneNumber d)
      \<and> truthyStr (state (info d)) \<and> truthyStr (city (info d))
      \<and> truthyStr (pinCode (info d)) \<and> truthyStr (address (info d))
      \<and> (seek80G (info d) = Some ''yes'' \<or> seek80G (info d) = Some ''no'')
      \<and> (amount d = Fin 1 \<or> gtNum (amount d) (Fin 1))
      \<and> (case reasonForDonation (info d) of
            None \<Rightarrow> False
          | Some r \<Rightarrow> r \<in> set allowedReasons)
      \<and> donationRef d \<noteq> [])"

text \<open>The argument of \<open>createOrder\<close>, built from the request as it was received.\<close>

definition orderDataOf :: "initiateBody \<Rightarrow> string \<Rightarrow> string \<Rightarrow> orderData" where
  "orderDataOf b ref oid =
     \<lparr>od_name = b_fullName b, od_email = b_email b, od_mobile = b_phoneNumber b,
      od_amount = (case b_amount b of None \<Rightarrow> NaN | Some a \<Rightarrow> a),
      od_orderId = oid, od_donationRef = ref,
      od_purpose = orElse (purpose (b_info b)) (reasonForDonation (b_info b))\<rparr>"

definition initiatePayment :: "env \<Rightarrow> initiateBody \<Rightarrow> world \<Rightarrow> response \<times> world" where
  "initiatePayment e b w =
     (if \<not> isConfigured e then
        (Json 503 (ErrorBody ''Payment service temporarily unavailable''), w)
      else if validationErrors e b \<noteq> [] then (Json 400 (ErrorsBody (validationErrors e b)), w)
      else
        let ref = generateDonationRef e;
            oid = generateOrderId e;
            d = newDonation e b ref oid
        in
        if \<not> schemaAccepts d then (Json 500 (ErrorBody ''Internal server error''), w)
        else if list_ex (\<lambda>x. donationRef x = ref) (donations w) then
          (Json 409 (ErrorBody ''Duplicate order detected. Please try again.''), w)
        else
          let i = length (donations w);
              w1 = w\<lparr>donations := donations w @ [d]\<rparr>
          in
          case createOrder e (orderDataOf b ref oid) w1 of
            (OrderFailed err, w2) \<Rightarrow>
              (Json 500 (ErrorRef ''Failed to initiate payment'' ref),
               save e i (d\<lparr>paymentStatus := FAILED, status := failed\<rparr>) w2)
          | (OrderOk r, w2) \<Rightarrow>
              (Json 200 (InitiateOk (paymentUrl r) ref oid),
               save e i (d\<lparr>mswipePaymentResponse := Some
                            \<lparr>linkResponse = Some (mswipeResp r), callback = None,
                             statusCheck = None\<rparr>,
                          mswipeIpgId := txnId r,
                          mswipeTransId := transId r\<rparr>) w2))"


section \<open>Sequences of requests\<close>

datatype request =
    Initiate initiateBody
  | Callback callbackData
  | Verify string

fun step :: "env \<Rightarrow> request \<Rightarrow> world \<Rightarrow> response \<times> world" where
  "step e (Initiate b) w = initiatePayment e b w"
| "step e (Callback cb) w = handleCallback e cb w"
| "step e (Verify ref) w = verifyTransaction e ref w"

text \<open>The world after a sequence of requests, each served in its own environment.\<close>

fun run :: "(env \<times> request) list \<Rightarrow> world \<Rightarrow> world" where
  "run [] w = w"
| "run ((e, rq) # rest) w = run rest (snd (step e rq w))"

section \<open>A concrete setting\<close>

text \<open>
  A parser that agrees with \<open>parseFloat\<close> on the strings of decimal digits, the only ones
  it is applied to below.
\<close>

definition parseDigits :: "string \<Rightarrow> jsnum" where
  "parseDigits s =
     (if s \<noteq> [] \<and> list_all isDigit s
      then Fin (of_nat (foldl (\<lambda>acc c. acc * 10 + digitValue c) 0 s))
      else NaN)"

definition linkAnswer :: paymentData where
  "linkAnswer =
     \<lparr>p_status = JStr ''True'',
      p_smslink = Some ''https://pbl.mswipe.com/pay?TransID=T77'',
      p_txn_id = Some ''IPG900'',
      p_responsemessage = None,
      p_copied = []\<rparr>"

definition env0 :: env where
  "env0 =
     \<lparr>dateNow = 1700000000000,
      dateLater = 1700000000500,
      randomRef = 42,
      randomOrder = 7,
      randomRequest = 9,
      userId = Some ''user'',
      clientId = Some ''client'',
      password = Some ''secret'',
      custCode = Some ''cust'',
      frontendUrl = None,
      parseFloat = parseDigits,
      convNumber = (\<lambda>v. NaN),
      isEmail = (\<lambda>s. CHR ''@'' \<in> set s),
      escape = (\<lambda>s. s),
      sha256 = (\<lambda>s. s),
      transIdOf = (\<lambda>u. Some ''T77''),
      decodeJwt = (\<lambda>t. DecodeFails),
      tokenAnswer = Response \<lparr>t_status = JBool True, t_token = JStr ''tok'', t_msg = None\<rparr>,
      paymentAnswer = Response linkAnswer,
      statusAnswer = Throws None\<rparr>"

definition body0 :: initiateBody where
  "body0 =
     \<lparr>b_fullName = Some ''Asha Rao'',
      b_email = Some ''asha@example.org'',
      b_phoneNumber = Some ''9876543210'',
      b_amount = Some (Fin 100),
      b_info =
        \<lparr>state = Some ''Maharashtra'', city = Some ''Vasai'', pinCode = Some ''401202'',
         address = Some ''1 Main Road'', seek80G = Some ''no'',
         reasonForDonation = Some ''General Donation'', purpose = None,
         panCardNumber = None, ipAddress = None, userAgent = Some []\<rparr>\<rparr>"

definition world0 :: world where
  "world0 =
     \<lparr>donations = [], cachedToken = JNull, tokenExpiry = None, calls = [], mails = []\<rparr>"

text \<open>A stored donation of 100 that awaits its callback, with its polling id.\<close>

definition pending100 :: donation where
  "pending100 =
     \<lparr>fullName = Some ''Asha Rao'',
      email = Some ''asha@example.org'',
      phoneNumber = Some ''9876543210'',
      info =
        \<lparr>state = Some ''Maharashtra'', city = Some ''Vasai'', pinCode = Some ''401202'',
         address = Some ''1 Main Road'', seek80G = Some ''no'',
         reasonForDonation = Some ''General Donation'', purpose = None,
         panCardNumber = None, ipAddress = None, userAgent = Some []\<rparr>,
      amount = Fin 100,
      donationRef = ''CMV170000000000042'',
      paymentGateway = ''mswipe'',
      paymentStatus = PENDING,
      status = pending,
      mswipeOrderId = Some ''CMV17000000000000007'',
      mswipeTransactionRef = None,
      mswipeIpgId = Some ''IPG900'',
      mswipeTransId = Some ''T77'',
      mswipePaymentResponse =
        Some \<lparr>linkResponse = Some \<lparr>txn_id = Some ''IPG900'', copied = []\<rparr>,
              callback = None, statusCheck = None\<rparr>,
      createdAt = 1700000000000,
      updatedAt = 1700000000000\<rparr>"

definition world1 :: world where
  "world1 =
     \<lparr>donations = [pending100], cachedToken = JStr ''tok'',
      tokenExpiry = Some (Fin 1702160000500),
      calls = [CreatePBLAuthToken, MswipePayment ''CMV17000000000000007''],
      mails = []\<rparr>"

text \<open>A callback for that order.\<close>

definition callback0 :: "string option \<Rightarrow> string option \<Rightarrow> callbackData" where
  "callback0 st amt =
     \<lparr>IPG_ID = Some ''IPG900'', ME_InvNo = Some ''CMV17000000000000007'',
      TRAN_STATUS = st, TranAmount = amt, RRN = Some ''RRN555'',
      c_stored = [], c_contact = []\<rparr>"


text \<open>The same donation after an approved callback.\<close>

definition settled100 :: donation where
  "settled100 =
     pending100\<lparr>paymentStatus := SUCCESS, status := completed,
                mswipeTransactionRef := Some ''RRN555''\<rparr>"

definition world2 :: world where
  "world2 = world1\<lparr>donations := [settled100]\<rparr>"

text \<open>A stored donation whose payment link carried no polling id.\<close>

definition world3 :: world where
  "world3 = world1\<lparr>donations := [pending100\<lparr>mswipeTransId := None\<rparr>]\<rparr>"



text \<open>The processor refuses the connection when the payment link is requested.\<close>

definition envLinkDown :: env where
  "envLinkDown = env0\<lparr>paymentAnswer := Throws None\<rparr>"

text \<open>The processor issues a token whose payload is the empty object \<open>{}\<close>.\<close>

definition envNoExp :: env where
  "envNoExp = env0\<lparr>decodeJwt := (\<lambda>t. Payload JUndefined)\<rparr>"

text \<open>The processor answers a status request with one transaction of the given code.\<close>

definition envStatus :: "jsval \<Rightarrow> env" where
  "envStatus c =
     env0\<lparr>statusAnswer := Response
            \<lparr>s_Status = JStr ''True'',
             s_Data = Some [\<lparr>t_IPG_ID = Some ''IPG900'', Payment_Status = c,
                             Payment_Id = Some ''RRN555'', t_copied = []\<rparr>],
             s_ResponseMessage = None\<rparr>\<rparr>"

section \<open>Facts about the operations\<close>

subsection \<open>Stored donations are touched only by the controller\<close>

lemma findIndex_Some: "findIndex P xs = Some i \<Longrightarrow> i < length xs \<and> P (xs ! i)"
proof (induction xs arbitrary: i)
  case Nil
  then show ?case by simp
next
  case (Cons x xs)
  then show ?case by (auto split: if_splits)
qed

lemma save_donations:
  "donations (save e j d w) = (donations w)[j := d\<lparr>updatedAt := dateNow e\<rparr>]"
  by (simp add: save_def)

lemma sendDonationEmail_donations: "donations (sendDonationEmail d w) = donations w"
  by (simp add: sendDonationEmail_def)

lemma generateToken_donations: "donations (snd (generateToken e w)) = donations w"
  by (simp add: generateToken_def Let_def split: http.splits)

lemma createOrder_donations: "donations (snd (createOrder e od w)) = donations w"
proof -
  obtain r w1 where g: "generateToken e w = (r, w1)" by (cases "generateToken e w")
  then have "donations w1 = donations w" using generateToken_donations [of e w] by simp
  with g show ?thesis
    by (cases r) (simp_all add: createOrder_def Let_def split: http.splits option.splits)
qed

lemma checkTransactionStatus_donations:
  "donations (snd (checkTransactionStatus e t w)) = donations w"
  by (simp add: checkTransactionStatus_def Let_def split: option.splits http.splits list.splits)

lemma initiatePayment_old:
  assumes "i < length (donations w)"
  shows "donations (snd (initiatePayment e b w)) ! i = donations w ! i"
proof -
  let ?d = "newDonation e b (generateDonationRef e) (generateOrderId e)"
  let ?w1 = "w\<lparr>donations := donations w @ [?d]\<rparr>"
  obtain r w2 where c:
    "createOrder e (orderDataOf b (generateDonationRef e) (generateOrderId e)) ?w1 = (r, w2)"
    by (cases "createOrder e (orderDataOf b (generateDonationRef e) (generateOrderId e)) ?w1")
  have "donations w2 = donations w @ [?d]"
    using createOrder_donations
      [of e "orderDataOf b (generateDonationRef e) (generateOrderId e)" ?w1] c by simp
  with c assms show ?thesis
    by (cases r) (simp_all add: initiatePayment_def Let_def save_donations nth_append)
qed

lemma initiatePayment_length:
  "length (donations w) \<le> length (donations (snd (initiatePayment e b w)))"
proof -
  let ?d = "newDonation e b (generateDonationRef e) (generateOrderId e)"
  let ?w1 = "w\<lparr>donations := donations w @ [?d]\<rparr>"
  obtain r w2 where c:
    "createOrder e (orderDataOf b (generateDonationRef e) (generateOrderId e)) ?w1 = (r, w2)"
    by (cases "createOrder e (orderDataOf b (generateDonationRef e) (generateOrderId e)) ?w1")
  have "donations w2 = donations w @ [?d]"
    using createOrder_donations
      [of e "orderDataOf b (generateDonationRef e) (generateOrderId e)" ?w1] c by simp
  with c show ?thesis
    by (cases r) (simp_all add: initiatePayment_def Let_def save_donations)
qed

lemma handleCallback_length:
  "length (donations (snd (handleCallback e cb w))) = length (donations w)"
  by (simp add: handleCallback_def Let_def save_donations sendDonationEmail_donations
      split: verifyResult.splits option.splits)

lemma verifyTransaction_length:
  "length (donations (snd (verifyTransaction e ref w))) = length (donations w)"
proof (cases "findIndex (\<lambda>d. donationRef d = ref) (donations w)")
  case None
  then show ?thesis by (simp add: verifyTransaction_def)
next
  case (Some j)
  obtain sr w1 where c: "checkTransactionStatus e (mswipeTransId (donations w ! j)) w = (sr, w1)"
    by (cases "checkTransactionStatus e (mswipeTransId (donations w ! j)) w")
  have "donations w1 = donations w"
    using checkTransactionStatus_donations [of e "mswipeTransId (donations w ! j)" w] c by simp
  with Some c show ?thesis
    by (cases sr)
      (simp_all add: verifyTransaction_def Let_def save_donations sendDonationEmail_donations)
qed

lemma handleCallback_settled:
  assumes "paymentStatus (donations w ! i) \<noteq> PENDING"
  shows "donations (snd (handleCallback e cb w)) ! i = donations w ! i"
proof (cases "verifyCallback e cb")
  case (Invalid err)
  then show ?thesis by (simp add: handleCallback_def)
next
  case (Valid v)
  show ?thesis
  proof (cases "findIndex (\<lambda>d. mswipeOrderId d = orderId v) (donations w)")
    case None
    with Valid show ?thesis by (simp add: handleCallback_def)
  next
    case (Some j)
    show ?thesis
    proof (cases "paymentStatus (donations w ! j) = PENDING")
      case True
      with assms have "j \<noteq> i" by auto
      with Valid Some True show ?thesis
        by (simp add: handleCallback_def Let_def save_donations sendDonationEmail_donations)
    next
      case False
      with Valid Some show ?thesis by (simp add: handleCallback_def Let_def)
    qed
  qed
qed

lemma verifyTransaction_settled:
  assumes "paymentStatus (donations w ! i) \<noteq> PENDING"
  shows "donations (snd (verifyTransaction e ref w)) ! i = donations w ! i"
proof (cases "findIndex (\<lambda>d. donationRef d = ref) (donations w)")
  case None
  then show ?thesis by (simp add: verifyTransaction_def)
next
  case (Some j)
  obtain sr w1 where c: "checkTransactionStatus e (mswipeTransId (donations w ! j)) w = (sr, w1)"
    by (cases "checkTransactionStatus e (mswipeTransId (donations w ! j)) w")
  have w1: "donations w1 = donations w"
    using checkTransactionStatus_donations [of e "mswipeTransId (donations w ! j)" w] c by simp
  show ?thesis
  proof (cases "paymentStatus (donations w ! j) = PENDING")
    case True
    with assms have "j \<noteq> i" by auto
    with Some c w1 show ?thesis
      by (cases sr)
        (simp_all add: verifyTransaction_def Let_def save_donations sendDonationEmail_donations)
  next
    case False
    with Some c w1 show ?thesis
      by (cases sr) (simp_all add: verifyTransaction_def Let_def)
  qed
qed

lemma step_length: "length (donations w) \<le> length (donations (snd (step e rq w)))"
  by (cases rq) (simp_all add: initiatePayment_length handleCallback_length verifyTransaction_length)

lemma step_settled:
  assumes "i < length (donations w)" and "paymentStatus (donations w ! i) \<noteq> PENDING"
  shows "donations (snd (step e rq w)) ! i = donations w ! i"
  using assms
  by (cases rq) (simp_all add: initiatePayment_old handleCallback_settled verifyTransaction_settled)

lemma run_settled:
  assumes "i < length (donations w)" and "paymentStatus (donations w ! i) \<noteq> PENDING"
  shows "i < length (donations (run rs w)) \<and> donations (run rs w) ! i = donations w ! i"
  using assms
proof (induction rs arbitrary: w)
  case Nil
  then show ?case by simp
next
  case (Cons a rs)
  obtain e rq where a: "a = (e, rq)" by (cases a)
  let ?w1 = "snd (step e rq w)"
  have l: "i < length (donations ?w1)"
    using Cons.prems(1) step_length [of w e rq] by simp
  have s: "donations ?w1 ! i = donations w ! i"
    using Cons.prems by (rule step_settled)
  with Cons.prems have "paymentStatus (donations ?w1 ! i) \<noteq> PENDING" by simp
  with l have "i < length (donations (run rs ?w1)) \<and> donations (run rs ?w1) ! i = donations ?w1 ! i"
    by (rule Cons.IH)
  with s a show ?case by simp
qed

subsection \<open>Paths through the callback, the verification and the initiation\<close>




lemma verifyCallback_amount:
  assumes "verifyCallback e cb = Valid v"
  shows "v_amount v = (case TranAmount cb of None \<Rightarrow> None
                       | Some t \<Rightarrow> if t = [] then None else Some (parseFloat e t))"
    and "orderId v = ME_InvNo cb"
  using assms by (auto simp: verifyCallback_def split: if_splits)

lemma verifyCallback_valid:
  "(\<exists>v. verifyCallback e cb = Valid v) = (truthyStr (ME_InvNo cb) \<or> truthyStr (IPG_ID cb))"
  by (auto simp: verifyCallback_def)

lemma handleCallback_mismatch:
  assumes valid: "truthyStr (ME_InvNo cb) \<or> truthyStr (IPG_ID cb)"
    and found: "findIndex (\<lambda>d. mswipeOrderId d = ME_InvNo cb) (donations w) = Some i"
    and pend: "paymentStatus (donations w ! i) = PENDING"
    and amt: "TranAmount cb = Some t" "t \<noteq> []"
    and tr: "truthyNum (parseFloat e t)"
    and ne: "strictNeqNum (parseFloat e t) (amount (donations w ! i))"
  shows "handleCallback e cb w =
           (Json 400 (ErrorBody ''Amount verification failed''),
            save e i ((donations w ! i)\<lparr>paymentStatus := FAILED, status := failed\<rparr>) w)"
proof -
  from valid obtain v where v: "verifyCallback e cb = Valid v"
    using verifyCallback_valid by blast
  have a: "v_amount v = Some (parseFloat e t)" and o: "orderId v = ME_InvNo cb"
    using verifyCallback_amount [OF v] amt by simp_all
  from v a o found pend tr ne show ?thesis
    by (simp add: handleCallback_def Let_def)
qed



lemma handleCallback_duplicate:
  assumes "truthyStr (ME_InvNo cb) \<or> truthyStr (IPG_ID cb)"
    and "findIndex (\<lambda>d. mswipeOrderId d = ME_InvNo cb) (donations w) = Some i"
    and "paymentStatus (donations w ! i) \<noteq> PENDING"
  shows "handleCallback e cb w =
           (if truthyStr (frontendUrl e)
            then Redirect (strOr (frontendUrl e) [])
                   [(''status'', QText (statusLower (paymentStatus (donations w ! i)))),
                    (''ref'', QText (donationRef (donations w ! i)))]
            else Json 200 (AlreadyProcessed (paymentStatus (donations w ! i))), w)"
proof -
  from assms(1) obtain v where v: "verifyCallback e cb = Valid v"
    using verifyCallback_valid by blast
  with assms(2,3) verifyCallback_amount(2) [OF v] show ?thesis
    by (simp add: handleCallback_def Let_def)
qed

lemma verifyTransaction_unverifiable:
  assumes "ref \<noteq> []"
    and "findIndex (\<lambda>d. donationRef d = ref) (donations w) = Some i"
    and "\<not> truthyStr (mswipeTransId (donations w ! i))"
  shows "verifyTransaction e ref w =
           (Json 400 (ErrorStatus ''Transaction ID not available for verification''
              (paymentStatus (donations w ! i))), w)"
  using assms by (simp add: verifyTransaction_def Let_def)

lemma checkTransactionStatus_ok:
  assumes "t \<noteq> []"
    and "statusAnswer e = Response data"
    and "s_Status data = JStr ''True'' \<or> s_Status data = JBool True"
    and "s_Data data = Some (txn # rest)"
  shows "checkTransactionStatus e (Some t) w =
           (StatusOk \<lparr>sd_ipgId = t_IPG_ID txn,
                      sd_status = (if Payment_Status txn = JNum (Fin 1) then SUCCESS
                                   else if Payment_Status txn = JNum (Fin 2) then PENDING
                                   else FAILED),
                      sd_statusCode = Payment_Status txn,
                      sd_paymentId = Payment_Id txn,
                      sd_copied = t_copied txn\<rparr>,
            w\<lparr>calls := calls w @ [GetPBLTransactionDetails t]\<rparr>)"
  using assms by (auto simp: checkTransactionStatus_def Let_def)

lemma generateToken_cached:
  assumes "cacheValid e w"
  shows "generateToken e w = (TokenOk (cachedToken w), w)"
  using assms by (simp add: generateToken_def)

lemma generateToken_calls:
  assumes "\<not> cacheValid e w"
  shows "calls (snd (generateToken e w)) = calls w @ [CreatePBLAuthToken]"
  using assms by (simp add: generateToken_def Let_def split: http.splits)

lemma generateToken_fresh:
  assumes "\<not> cacheValid e w"
    and "tokenAnswer e = Response data"
    and "t_status data = JStr ''true'' \<or> t_status data = JBool True"
  shows "generateToken e w =
           (TokenOk (t_token data),
            w\<lparr>calls := calls w @ [CreatePBLAuthToken],
              cachedToken := t_token data,
              tokenExpiry := Some
                (case decodeJwt e (t_token data) of
                   Payload ex \<Rightarrow> timesPos (toNumber (convNumber e) ex) 1000
                 | DecodeFails \<Rightarrow> Fin (of_nat (dateLater e) + defaultExpiry))\<rparr>)"
  using assms by (auto simp: generateToken_def Let_def)

lemma initiatePayment_failed:
  assumes "isConfigured e"
    and "validationErrors e b = []"
    and "schemaAccepts (newDonation e b (generateDonationRef e) (generateOrderId e))"
    and "\<not> list_ex (\<lambda>x. donationRef x = generateDonationRef e) (donations w)"
    and "createOrder e (orderDataOf b (generateDonationRef e) (generateOrderId e))
           (w\<lparr>donations := donations w
                @ [newDonation e b (generateDonationRef e) (generateOrderId e)]\<rparr>)
         = (OrderFailed err, w2)"
  shows "initiatePayment e b w =
           (Json 500 (ErrorRef ''Failed to initiate payment'' (generateDonationRef e)),
            save e (length (donations w))
              ((newDonation e b (generateDonationRef e) (generateOrderId e))
                 \<lparr>paymentStatus := FAILED, status := failed\<rparr>) w2)"
  using assms by (simp add: initiatePayment_def Let_def)

lemma initiatePayment_created:
  assumes "isConfigured e"
    and "validationErrors e b = []"
    and "ref = generateDonationRef e" and "oid = generateOrderId e"
    and "d = newDonation e b ref oid"
    and "schemaAccepts d"
    and "\<not> list_ex (\<lambda>x. donationRef x = ref) (donations w)"
    and "fst (createOrder e (orderDataOf b ref oid) (w\<lparr>donations := donations w @ [d]\<rparr>))
           = OrderOk r"
  shows "fst (initiatePayment e b w) = Json 200 (InitiateOk (paymentUrl r) ref oid)"
    and "donations (snd (initiatePayment e b w))
           = donations w
             @ [d\<lparr>mswipePaymentResponse := Some
                    \<lparr>linkResponse = Some (mswipeResp r), callback = None, statusCheck = None\<rparr>,
                  mswipeIpgId := txnId r, mswipeTransId := transId r,
                  updatedAt := dateNow e\<rparr>]"
proof -
  obtain w2 where c:
    "createOrder e (orderDataOf b ref oid) (w\<lparr>donations := donations w @ [d]\<rparr>)
       = (OrderOk r, w2)"
    using assms(8)
    by (cases "createOrder e (orderDataOf b ref oid) (w\<lparr>donations := donations w @ [d]\<rparr>)")
      simp
  have w2: "donations w2 = donations w @ [d]"
    using createOrder_donations
      [of e "orderDataOf b ref oid" "w\<lparr>donations := donations w @ [d]\<rparr>"] c by simp
  have r: "initiatePayment e b w =
      (Json 200 (InitiateOk (paymentUrl r) ref oid),
       save e (length (donations w))
         (d\<lparr>mswipePaymentResponse := Some
              \<lparr>linkResponse = Some (mswipeResp r), callback = None, statusCheck = None\<rparr>,
            mswipeIpgId := txnId r, mswipeTransId := transId r\<rparr>) w2)"
    using assms(1-7) c by (simp add: initiatePayment_def Let_def)
  show "fst (initiatePayment e b w) = Json 200 (InitiateOk (paymentUrl r) ref oid)"
    using r by simp
  show "donations (snd (initiatePayment e b w))
           = donations w
             @ [d\<lparr>mswipePaymentResponse := Some
                    \<lparr>linkResponse = Some (mswipeResp r), callback = None, statusCheck = None\<rparr>,
                  mswipeIpgId := txnId r, mswipeTransId := transId r,
                  updatedAt := dateNow e\<rparr>]"
    using r w2 by (simp add: save_donations)
qed

subsection \<open>Evaluating the concrete setting\<close>

lemma world1_facts:
  "length (donations world1) = 1"
  "donations world1 ! 0 = pending100"
  "findIndex (\<lambda>d. mswipeOrderId d = Some ''CMV17000000000000007'') (donations world1) = Some 0"
  "findIndex (\<lambda>d. donationRef d = ''CMV170000000000042'') (donations world1) = Some 0"
  by (simp_all add: world1_def pending100_def)

lemma world2_facts:
  "length (donations world2) = 1"
  "donations world2 ! 0 = settled100"
  "paymentStatus settled100 = SUCCESS"
  "findIndex (\<lambda>d. mswipeOrderId d = Some ''CMV17000000000000007'') (donations world2) = Some 0"
  by (simp_all add: world2_def world1_def settled100_def pending100_def)

lemma world3_facts:
  "findIndex (\<lambda>d. donationRef d = ''CMV170000000000042'') (donations world3) = Some 0"
  "mswipeTransId (donations world3 ! 0) = None"
  "paymentStatus (donations world3 ! 0) = PENDING"
  by (simp_all add: world3_def world1_def pending100_def)

lemma pending100_facts:
  "paymentStatus pending100 = PENDING"
  "amount pending100 = Fin 100"
  "mswipeTransactionRef pending100 = None"
  by (simp_all add: pending100_def)

lemma callback0_facts:
  "ME_InvNo (callback0 st amt) = Some ''CMV17000000000000007''"
  "IPG_ID (callback0 st amt) = Some ''IPG900''"
  "RRN (callback0 st amt) = Some ''RRN555''"
  "TRAN_STATUS (callback0 st amt) = st"
  "TranAmount (callback0 st amt) = amt"
  by (simp_all add: callback0_def)

lemma env0_facts:
  "frontendUrl env0 = None"
  "parseFloat env0 = parseDigits"
  "dateNow env0 = 1700000000000"
  by (simp_all add: env0_def)

lemma parseDigits_facts:
  "parseDigits ''0'' = Fin 0"
  "parseDigits ''50'' = Fin 50"
  "parseDigits ''100'' = Fin 100"
  by (simp_all add: parseDigits_def isDigit_def digitValue_def)

lemma toLowerCase_facts:
  "toLowerCase ''APPROVED'' = ''approved''"
  "toLowerCase ''approved'' = ''approved''"
  by (simp_all add: toLowerCase_def lowerChar_def)

lemma verifyCallback_callback0:
  "verifyCallback env0 (callback0 (Some ''approved'') (Some t)) =
     Valid \<lparr>orderId = Some ''CMV17000000000000007'', ipgId = Some ''IPG900'',
            v_status = SUCCESS, transactionRef = Some ''RRN555'',
            v_amount = (if t = [] then None else Some (parseDigits t)),
            v_stored = [], v_contact = []\<rparr>"
  by (simp add: verifyCallback_def callback0_def truthyStr_def lowerIs_def toLowerCase_facts
      orElse_def env0_facts)

lemma decimal_small: "n < 10 \<Longrightarrow> decimal n = [''0123456789'' ! n]"
  by simp

lemma decimal_large:
  "\<not> n < 10 \<Longrightarrow> decimal n = decimal (n div 10) @ [''0123456789'' ! (n mod 10)]"
  by simp

lemma decimal_now: "decimal 1700000000000 = ''1700000000000''"
  by (simp add: decimal_small decimal_large del: decimal.simps)

lemma decimal_42: "decimal 42 = ''42''"
  by (simp add: decimal_small decimal_large del: decimal.simps)

lemma replicate_three: "replicate 3 x = [x, x, x]"
  by (simp add: numeral_3_eq_3)

lemma decimal_7: "decimal 7 = ''7''"
  by simp

lemma generateOrderId_env0: "generateOrderId env0 = ''CMV17000000000000007''"
  by (simp add: generateOrderId_def env0_def decimal_now decimal_7 padStart_def replicate_three
      del: decimal.simps)

lemma generateDonationRef_env0: "generateDonationRef env0 = ''CMV170000000000042''"
  by (simp add: generateDonationRef_def env0_def decimal_now decimal_42 del: decimal.simps)

lemma validationErrors_env0: "validationErrors env0 body0 = []"
  by (simp add: validationErrors_def env0_def body0_def trim_def isSpace_def
      isDigit_def truthyNum_def)

lemma newDonation_env0:
  "newDonation env0 body0 ''CMV170000000000042'' ''CMV17000000000000007''
     = pending100\<lparr>mswipeIpgId := None, mswipeTransId := None, mswipePaymentResponse := None\<rparr>"
  by (simp add: newDonation_def env0_def body0_def pending100_def sanitizeInput_def trim_def
      isSpace_def truthyStr_def toLowerCase_def lowerChar_def strOr_def)

lemma schemaAccepts_env0:
  "schemaAccepts (newDonation env0 body0 ''CMV170000000000042'' ''CMV17000000000000007'')"
  by (simp add: newDonation_env0)
     (simp add: schemaAccepts_def pending100_def truthyStr_def allowedReasons_def)

lemma createOrder_env0:
  "createOrder env0 (orderDataOf body0 ''CMV170000000000042'' ''CMV17000000000000007'')
     (world0\<lparr>donations := ds\<rparr>)
   = (OrderOk \<lparr>paymentUrl = ''https://pbl.mswipe.com/pay?TransID=T77'', txnId = Some ''IPG900'',
               transId = Some ''T77'', requestId = generateRequestId env0,
               mswipeResp = \<lparr>txn_id = Some ''IPG900'', copied = []\<rparr>\<rparr>,
      world0\<lparr>donations := ds, cachedToken := JStr ''tok'',
              tokenExpiry := Some (Fin 1702160000500),
              calls := [CreatePBLAuthToken, MswipePayment ''CMV17000000000000007'']\<rparr>)"
  by (simp add: createOrder_def orderDataOf_def body0_def truthyStr_def truthyNum_def
      generateToken_def cacheValid_def world0_def env0_def linkAnswer_def Let_def
      defaultExpiry_def)


lemma world0_donations: "donations world0 = []"
  by (simp add: world0_def)

lemma isConfigured_env0: "isConfigured env0"
  by (simp add: isConfigured_def env0_def truthyStr_def)

lemma initiatePayment_env0:
  "initiatePayment env0 body0 world0
     = (Json 200 (InitiateOk ''https://pbl.mswipe.com/pay?TransID=T77'' ''CMV170000000000042''
                    ''CMV17000000000000007''), world1)"
  by (simp add: initiatePayment_def isConfigured_env0 validationErrors_env0
        generateDonationRef_env0 generateOrderId_env0 schemaAccepts_env0 world0_donations
        createOrder_env0 Let_def)
     (simp add: newDonation_env0 save_def env0_facts world0_def world1_def pending100_def)

section \<open>The claims\<close>

text \<open>
  C1. A donation's \<open>paymentStatus\<close> changes only from \<open>PENDING\<close> to \<open>SUCCESS\<close> or to
  \<open>FAILED\<close>, and at most once. A stored donation that is not \<open>PENDING\<close> is left exactly
  as it is by \<open>handleCallback\<close>, by \<open>verifyTransaction\<close> and by every sequence of
  requests; so whenever a sequence of requests changes a donation's status, the status
  was \<open>PENDING\<close> and has become \<open>SUCCESS\<close> or \<open>FAILED\<close>. A callback for a donation that
  is already settled changes nothing in the world and answers with the settled status:
  a redirect carrying it when a result page is configured, a 200 body carrying it
  otherwise.
\<close>

theorem paymentStatus_settles_once:
  assumes "i < length (donations w)"
  shows "(paymentStatus (donations w ! i) \<noteq> PENDING \<longrightarrow>
            donations (snd (handleCallback e cb w)) ! i = donations w ! i
          \<and> donations (snd (verifyTransaction e ref w)) ! i = donations w ! i
          \<and> donations (run rs w) ! i = donations w ! i)
       \<and> (paymentStatus (donations (run rs w) ! i) \<noteq> paymentStatus (donations w ! i) \<longrightarrow>
            paymentStatus (donations w ! i) = PENDING
          \<and> (paymentStatus (donations (run rs w) ! i) = SUCCESS
              \<or> paymentStatus (donations (run rs w) ! i) = FAILED))
       \<and> (paymentStatus (donations w ! i) \<noteq> PENDING
          \<and> (truthyStr (ME_InvNo cb) \<or> truthyStr (IPG_ID cb))
          \<and> findIndex (\<lambda>d. mswipeOrderId d = ME_InvNo cb) (donations w) = Some i \<longrightarrow>
            handleCallback e cb w =
              (if truthyStr (frontendUrl e)
               then Redirect (strOr (frontendUrl e) [])
                      [(''status'', QText (statusLower (paymentStatus (donations w ! i)))),
                       (''ref'', QText (donationRef (donations w ! i)))]
               else Json 200 (AlreadyProcessed (paymentStatus (donations w ! i))), w))"
proof -
  have settled: "paymentStatus (donations w ! i) \<noteq> PENDING \<Longrightarrow>
      donations (run rs w) ! i = donations w ! i" for rs
    using run_settled [OF assms] by simp
  have shape: "paymentStatus (donations w ! i) = PENDING
      \<and> (paymentStatus (donations (run rs w) ! i) = SUCCESS
          \<or> paymentStatus (donations (run rs w) ! i) = FAILED)"
    if ch: "paymentStatus (donations (run rs w) ! i) \<noteq> paymentStatus (donations w ! i)"
  proof -
    have p: "paymentStatus (donations w ! i) = PENDING"
    proof (rule ccontr)
      assume "paymentStatus (donations w ! i) \<noteq> PENDING"
      then have "donations (run rs w) ! i = donations w ! i" by (rule settled)
      with ch show False by simp
    qed
    with ch show ?thesis
      by (cases "paymentStatus (donations (run rs w) ! i)") simp_all
  qed
  show ?thesis
    using settled [of rs] shape handleCallback_settled [of w i e cb]
      verifyTransaction_settled [of w i e ref] handleCallback_duplicate [of cb w i e]
    by blast
qed

theorem paymentStatus_settles_once_witness:
  "0 < length (donations world2)
   \<and> paymentStatus (donations world2 ! 0) = SUCCESS
   \<and> donations (snd (handleCallback env0 (callback0 (Some ''approved'') (Some ''100'')) world2)) ! 0
       = donations world2 ! 0
   \<and> donations (snd (verifyTransaction env0 ''CMV170000000000042'' world2)) ! 0
       = donations world2 ! 0
   \<and> donations (run [(env0, Callback (callback0 (Some ''declined'') None)),
                     (env0, Verify ''CMV170000000000042'')] world2) ! 0
       = donations world2 ! 0
   \<and> handleCallback env0 (callback0 (Some ''approved'') (Some ''100'')) world2
       = (Json 200 (AlreadyProcessed SUCCESS), world2)"
  using paymentStatus_settles_once
    [where i = 0 and w = world2 and e = env0
       and cb = "callback0 (Some ''approved'') (Some ''100'')"
       and ref = "''CMV170000000000042''"
       and rs = "[(env0, Callback (callback0 (Some ''declined'') None)),
                  (env0, Verify ''CMV170000000000042'')]"]
  by (simp add: world2_facts callback0_facts env0_facts truthyStr_def)

lemma pending100_ref: "donationRef pending100 = ''CMV170000000000042''"
  by (simp add: pending100_def)

lemma handleCallback_zero:
  "handleCallback env0 (callback0 (Some ''approved'') (Some ''0'')) world1 =
     (Json 200 (CallbackDone True SUCCESS ''CMV170000000000042'' ''Payment successful''),
      sendDonationEmail
        (pending100\<lparr>paymentStatus := SUCCESS, status := completed,
                    mswipeTransactionRef := Some ''RRN555'', mswipeIpgId := Some ''IPG900'',
                    mswipePaymentResponse := Some
                      ((spread (mswipePaymentResponse pending100))
                         \<lparr>callback := Some
                            \<lparr>cb_ipgId = Some ''IPG900'', cb_transactionRef = Some ''RRN555'',
                             cb_copied = [], cb_rawStatus = Some ''approved''\<rparr>\<rparr>),
                    updatedAt := 1700000000000\<rparr>)
        (save env0 0
           (pending100\<lparr>paymentStatus := SUCCESS, status := completed,
                    mswipeTransactionRef := Some ''RRN555'', mswipeIpgId := Some ''IPG900'',
                    mswipePaymentResponse := Some
                      ((spread (mswipePaymentResponse pending100))
                         \<lparr>callback := Some
                            \<lparr>cb_ipgId = Some ''IPG900'', cb_transactionRef = Some ''RRN555'',
                             cb_copied = [], cb_rawStatus = Some ''approved''\<rparr>\<rparr>),
                    updatedAt := 1700000000000\<rparr>) world1))"
  by (simp add: handleCallback_def verifyCallback_callback0 world1_facts pending100_facts
      parseDigits_facts truthyNum_def Let_def env0_facts truthyStr_def callback0_facts
      pending100_ref)

text \<open>
  C2. The claim is that a callback which declares an amount different from the stored one
  settles a \<open>PENDING\<close> donation as \<open>FAILED\<close> and never as \<open>SUCCESS\<close>. The amount check
  of \<open>handleCallback\<close> runs only when the parsed amount is truthy, so a declared amount
  that parses to \<open>0\<close> passes unchecked: a donation of 100 is initiated and awaits its
  callback, the callback reports \<open>approved\<close> with \<open>TranAmount\<close> \<open>'0'\<close>, and the
  donation is settled as \<open>SUCCESS\<close>.
\<close>

theorem zero_amount_callback_settles_success:
  "amount (donations world1 ! 0) = Fin 100
   \<and> paymentStatus (donations world1 ! 0) = PENDING
   \<and> TranAmount (callback0 (Some ''approved'') (Some ''0'')) = Some ''0''
   \<and> parseFloat env0 ''0'' = Fin 0
   \<and> paymentStatus
        (donations (snd (handleCallback env0 (callback0 (Some ''approved'') (Some ''0'')) world1))
           ! 0) = SUCCESS
   \<and> snd (initiatePayment env0 body0 world0) = world1
   \<and> paymentStatus
        (donations
           (run [(env0, Initiate body0),
                 (env0, Callback (callback0 (Some ''approved'') (Some ''0'')))] world0)
           ! 0) = SUCCESS"
  by (simp add: handleCallback_zero world1_facts pending100_facts callback0_facts env0_facts
      parseDigits_facts sendDonationEmail_donations save_donations initiatePayment_env0)

text \<open>
  C3, as the code has it. When \<open>handleCallback\<close> finds a \<open>PENDING\<close> donation and the
  payload's amount parses to a truthy number different from the stored amount, the
  donation is settled as \<open>FAILED\<close>, no mail is sent, and the caller receives status 400
  with the error \<open>Amount verification failed\<close>: a distinct error response, neither a 200
  body nor a redirect.
\<close>

theorem amount_mismatch_answers_400:
  assumes "truthyStr (ME_InvNo cb) \<or> truthyStr (IPG_ID cb)"
    and "findIndex (\<lambda>d. mswipeOrderId d = ME_InvNo cb) (donations w) = Some i"
    and "paymentStatus (donations w ! i) = PENDING"
    and "TranAmount cb = Some t" and "t \<noteq> []"
    and "truthyNum (parseFloat e t)"
    and "strictNeqNum (parseFloat e t) (amount (donations w ! i))"
  shows "fst (handleCallback e cb w) = Json 400 (ErrorBody ''Amount verification failed'')
       \<and> paymentStatus (donations (snd (handleCallback e cb w)) ! i) = FAILED
       \<and> mails (snd (handleCallback e cb w)) = mails w"
proof -
  have "i < length (donations w)"
    using findIndex_Some [OF assms(2)] by simp
  then show ?thesis
    using handleCallback_mismatch [OF assms] by (simp add: save_def)
qed

theorem amount_mismatch_answers_400_witness:
  "TranAmount (callback0 (Some ''approved'') (Some ''50'')) = Some ''50''
   \<and> parseFloat env0 ''50'' = Fin 50
   \<and> amount (donations world1 ! 0) = Fin 100
   \<and> fst (handleCallback env0 (callback0 (Some ''approved'') (Some ''50'')) world1)
       = Json 400 (ErrorBody ''Amount verification failed'')
   \<and> paymentStatus
        (donations (snd (handleCallback env0 (callback0 (Some ''approved'') (Some ''50'')) world1))
           ! 0) = FAILED"
  using amount_mismatch_answers_400
    [where cb = "callback0 (Some ''approved'') (Some ''50'')" and w = world1 and i = 0
       and t = "''50''" and e = env0]
  by (simp add: callback0_facts world1_facts pending100_facts env0_facts parseDigits_facts
      truthyStr_def truthyNum_def strictNeqNum_def)

lemma handleCallback_fifty:
  "fst (handleCallback env0 (callback0 (Some ''approved'') (Some ''50'')) world1)
     = Json 400 (ErrorBody ''Amount verification failed'')"
  using handleCallback_mismatch
    [where cb = "callback0 (Some ''approved'') (Some ''50'')" and w = world1 and i = 0
       and t = "''50''" and e = env0]
  by (simp add: callback0_facts world1_facts pending100_facts env0_facts parseDigits_facts
      truthyStr_def truthyNum_def strictNeqNum_def)

text \<open>
  The claim of C3 itself, that the mismatch is answered with a 200 body or a redirect,
  fails for a callback that declares 50 against a stored 100.
\<close>

theorem amount_mismatch_counterexample:
  "fst (handleCallback env0 (callback0 (Some ''approved'') (Some ''50'')) world1)
     = Json 400 (ErrorBody ''Amount verification failed'')
   \<and> (\<forall>b. fst (handleCallback env0 (callback0 (Some ''approved'') (Some ''50'')) world1)
            \<noteq> Json 200 b)
   \<and> (\<forall>u q. fst (handleCallback env0 (callback0 (Some ''approved'') (Some ''50'')) world1)
            \<noteq> Redirect u q)"
  by (simp add: handleCallback_fifty)











text \<open>
  C6. When the donation found by \<open>verifyTransaction\<close> has no polling id
  (\<open>mswipeTransId\<close> absent or empty), the answer is 400 \<open>Transaction ID not available for
  verification\<close> with the donation's current status, no request to the processor is
  recorded, and the world, the donation included, is unchanged.
\<close>

theorem verify_without_polling_id:
  assumes "ref \<noteq> []"
    and "findIndex (\<lambda>d. donationRef d = ref) (donations w) = Some i"
    and "\<not> truthyStr (mswipeTransId (donations w ! i))"
  shows "fst (verifyTransaction e ref w)
           = Json 400 (ErrorStatus ''Transaction ID not available for verification''
                         (paymentStatus (donations w ! i)))
       \<and> calls (snd (verifyTransaction e ref w)) = calls w
       \<and> snd (verifyTransaction e ref w) = w"
  using verifyTransaction_unverifiable [OF assms] by simp

theorem verify_without_polling_id_witness:
  "findIndex (\<lambda>d. donationRef d = ''CMV170000000000042'') (donations world3) = Some 0
   \<and> mswipeTransId (donations world3 ! 0) = None
   \<and> fst (verifyTransaction env0 ''CMV170000000000042'' world3)
       = Json 400 (ErrorStatus ''Transaction ID not available for verification'' PENDING)
   \<and> calls (snd (verifyTransaction env0 ''CMV170000000000042'' world3)) = calls world3
   \<and> snd (verifyTransaction env0 ''CMV170000000000042'' world3) = world3"
  using verify_without_polling_id
    [where ref = "''CMV170000000000042''" and w = world3 and i = 0 and e = env0]
  by (simp add: world3_facts truthyStr_def)

text \<open>
  C7. When the processor answers a status request with a success flag and at least one
  transaction, \<open>checkTransactionStatus\<close> succeeds and its status is \<open>PENDING\<close> for
  \<open>Payment_Status\<close> the number 2, \<open>SUCCESS\<close> for the number 1, and \<open>FAILED\<close> for every
  other value, an absent one included.
\<close>

theorem status_code_mapping:
  assumes "t \<noteq> []"
    and "statusAnswer e = Response data"
    and "s_Status data = JStr ''True'' \<or> s_Status data = JBool True"
    and "s_Data data = Some (txn # rest)"
  shows "\<exists>sd. fst (checkTransactionStatus e (Some t) w) = StatusOk sd
       \<and> (Payment_Status txn = JNum (Fin 2) \<longrightarrow> sd_status sd = PENDING)
       \<and> (Payment_Status txn = JNum (Fin 1) \<longrightarrow> sd_status sd = SUCCESS)
       \<and> (Payment_Status txn \<noteq> JNum (Fin 1) \<and> Payment_Status txn \<noteq> JNum (Fin 2) \<longrightarrow>
            sd_status sd = FAILED)"
  using checkTransactionStatus_ok [OF assms, of w] by auto

lemma envStatus_facts:
  "statusAnswer (envStatus c) = Response
     \<lparr>s_Status = JStr ''True'',
      s_Data = Some [\<lparr>t_IPG_ID = Some ''IPG900'', Payment_Status = c,
                      Payment_Id = Some ''RRN555'', t_copied = []\<rparr>],
      s_ResponseMessage = None\<rparr>"
  by (simp add: envStatus_def env0_def)

theorem status_code_mapping_witness:
  "(\<exists>sd. fst (checkTransactionStatus (envStatus (JNum (Fin 1))) (Some ''T77'') world1) = StatusOk sd
         \<and> sd_status sd = SUCCESS)
   \<and> (\<exists>sd. fst (checkTransactionStatus (envStatus (JNum (Fin 2))) (Some ''T77'') world1) = StatusOk sd
         \<and> sd_status sd = PENDING)
   \<and> (\<exists>sd. fst (checkTransactionStatus (envStatus JUndefined) (Some ''T77'') world1) = StatusOk sd
         \<and> sd_status sd = FAILED)
   \<and> (\<exists>sd. fst (checkTransactionStatus (envStatus (JStr ''1'')) (Some ''T77'') world1) = StatusOk sd
         \<and> sd_status sd = FAILED)"
  using status_code_mapping [where t = "''T77''" and e = "envStatus (JNum (Fin 1))" and w = world1,
      OF _ envStatus_facts]
    status_code_mapping [where t = "''T77''" and e = "envStatus (JNum (Fin 2))" and w = world1,
      OF _ envStatus_facts]
    status_code_mapping [where t = "''T77''" and e = "envStatus JUndefined" and w = world1,
      OF _ envStatus_facts]
    status_code_mapping [where t = "''T77''" and e = "envStatus (JStr ''1'')" and w = world1,
      OF _ envStatus_facts]
  by simp

lemma envLinkDown_facts:
  "dateNow envLinkDown = 1700000000000"
  "randomRef envLinkDown = 42"
  "isConfigured envLinkDown"
  "paymentAnswer envLinkDown = Throws None"
  "tokenAnswer envLinkDown
     = Response \<lparr>t_status = JBool True, t_token = JStr ''tok'', t_msg = None\<rparr>"
  by (simp_all add: envLinkDown_def env0_def isConfigured_def truthyStr_def)

lemma generateDonationRef_linkDown: "generateDonationRef envLinkDown = ''CMV170000000000042''"
  by (simp add: generateDonationRef_def envLinkDown_facts decimal_now decimal_42
      del: decimal.simps)

lemma generateOrderId_nonempty: "generateOrderId e \<noteq> []"
  by (simp add: generateOrderId_def)

lemma validationErrors_linkDown: "validationErrors envLinkDown body0 = []"
  by (simp add: validationErrors_def envLinkDown_def env0_def body0_def trim_def isSpace_def
      isDigit_def truthyNum_def)

lemma schemaAccepts_linkDown:
  "schemaAccepts (newDonation envLinkDown body0 r oid) = (r \<noteq> [])"
  by (simp add: schemaAccepts_def newDonation_def envLinkDown_def env0_def body0_def
      sanitizeInput_def trim_def isSpace_def truthyStr_def toLowerCase_def lowerChar_def
      allowedReasons_def)

lemma createOrder_linkDown:
  assumes "oid \<noteq> []"
  shows "fst (createOrder envLinkDown (orderDataOf body0 r oid) (world0\<lparr>donations := ds\<rparr>))
           = OrderFailed ''Failed to create payment link''"
  using assms
  by (simp add: createOrder_def orderDataOf_def body0_def truthyStr_def truthyNum_def
      generateToken_def cacheValid_def world0_def envLinkDown_facts strOr_def Let_def)

lemma initiatePayment_failed_fst:
  assumes "isConfigured e"
    and "validationErrors e b = []"
    and "ref = generateDonationRef e" and "oid = generateOrderId e"
    and "d = newDonation e b ref oid"
    and "schemaAccepts d"
    and "\<not> list_ex (\<lambda>x. donationRef x = ref) (donations w)"
    and "fst (createOrder e (orderDataOf b ref oid) (w\<lparr>donations := donations w @ [d]\<rparr>))
           = OrderFailed err"
  shows "fst (initiatePayment e b w) = Json 500 (ErrorRef ''Failed to initiate payment'' ref)"
    and "donations (snd (initiatePayment e b w))
           = donations w @ [d\<lparr>paymentStatus := FAILED, status := failed, updatedAt := dateNow e\<rparr>]"
proof -
  obtain w2 where c:
    "createOrder e (orderDataOf b ref oid) (w\<lparr>donations := donations w @ [d]\<rparr>)
       = (OrderFailed err, w2)"
    using assms(8)
    by (cases "createOrder e (orderDataOf b ref oid) (w\<lparr>donations := donations w @ [d]\<rparr>)")
      simp
  have w2: "donations w2 = donations w @ [d]"
    using createOrder_donations
      [of e "orderDataOf b ref oid" "w\<lparr>donations := donations w @ [d]\<rparr>"] c by simp
  have r: "initiatePayment e b w =
      (Json 500 (ErrorRef ''Failed to initiate payment'' ref),
       save e (length (donations w)) (d\<lparr>paymentStatus := FAILED, status := failed\<rparr>) w2)"
    using initiatePayment_failed [of e b w err w2] assms(1-7) c by simp
  show "fst (initiatePayment e b w) = Json 500 (ErrorRef ''Failed to initiate payment'' ref)"
    using r by simp
  show "donations (snd (initiatePayment e b w))
          = donations w @ [d\<lparr>paymentStatus := FAILED, status := failed, updatedAt := dateNow e\<rparr>]"
    using r w2 by (simp add: save_donations)
qed

text \<open>
  C9. When the service is configured, the request is valid, the new document is accepted
  by the store and \<open>createOrder\<close> then fails, \<open>initiatePayment\<close> answers 500 with the
  error \<open>Failed to initiate payment\<close> and the donation reference; the donation just
  created is still stored (one more donation than before, the earlier ones as they were),
  it carries that reference, and its status is \<open>FAILED\<close> (\<open>failed\<close> in the legacy
  field), not \<open>PENDING\<close>.
\<close>

theorem link_failure_marks_failed:
  assumes "isConfigured e"
    and "validationErrors e b = []"
    and "ref = generateDonationRef e" and "oid = generateOrderId e"
    and "d = newDonation e b ref oid"
    and "schemaAccepts d"
    and "\<not> list_ex (\<lambda>x. donationRef x = ref) (donations w)"
    and "fst (createOrder e (orderDataOf b ref oid) (w\<lparr>donations := donations w @ [d]\<rparr>))
           = OrderFailed err"
  shows "fst (initiatePayment e b w) = Json 500 (ErrorRef ''Failed to initiate payment'' ref)
       \<and> length (donations (snd (initiatePayment e b w))) = Suc (length (donations w))
       \<and> take (length (donations w)) (donations (snd (initiatePayment e b w))) = donations w
       \<and> donationRef (donations (snd (initiatePayment e b w)) ! length (donations w)) = ref
       \<and> paymentStatus (donations (snd (initiatePayment e b w)) ! length (donations w)) = FAILED
       \<and> status (donations (snd (initiatePayment e b w)) ! length (donations w)) = failed"
  using initiatePayment_failed_fst [OF assms] assms(5)
  by (simp add: newDonation_def)

theorem link_failure_marks_failed_witness:
  "isConfigured envLinkDown
   \<and> validationErrors envLinkDown body0 = []
   \<and> fst (initiatePayment envLinkDown body0 world0)
       = Json 500 (ErrorRef ''Failed to initiate payment'' ''CMV170000000000042'')
   \<and> length (donations (snd (initiatePayment envLinkDown body0 world0))) = 1
   \<and> donationRef (donations (snd (initiatePayment envLinkDown body0 world0)) ! 0)
       = ''CMV170000000000042''
   \<and> paymentStatus (donations (snd (initiatePayment envLinkDown body0 world0)) ! 0) = FAILED"
  using link_failure_marks_failed
    [where e = envLinkDown and b = body0 and w = world0
       and ref = "''CMV170000000000042''" and oid = "generateOrderId envLinkDown"
       and d = "newDonation envLinkDown body0 ''CMV170000000000042''
                  (generateOrderId envLinkDown)"
       and err = "''Failed to create payment link''"]
    createOrder_linkDown
      [where oid = "generateOrderId envLinkDown" and r = "''CMV170000000000042''"
         and ds = "donations world0
           @ [newDonation envLinkDown body0 ''CMV170000000000042''
                (generateOrderId envLinkDown)]",
       OF generateOrderId_nonempty]
  by (simp add: envLinkDown_facts validationErrors_linkDown generateDonationRef_linkDown
      schemaAccepts_linkDown world0_def)

lemma initiatePayment_new_ref:
  assumes "length (donations w) \<le> i"
    and "i < length (donations (snd (initiatePayment e b w)))"
  shows "mswipeTransactionRef (donations (snd (initiatePayment e b w)) ! i) = None"
proof -
  let ?d = "newDonation e b (generateDonationRef e) (generateOrderId e)"
  let ?od = "orderDataOf b (generateDonationRef e) (generateOrderId e)"
  let ?w1 = "w\<lparr>donations := donations w @ [?d]\<rparr>"
  obtain r w2 where c: "createOrder e ?od ?w1 = (r, w2)"
    by (cases "createOrder e ?od ?w1")
  have w2: "donations w2 = donations w @ [?d]"
    using createOrder_donations [of e ?od ?w1] c by simp
  have n: "mswipeTransactionRef ?d = None" by (simp add: newDonation_def)
  from assms c w2 n show ?thesis
    by (cases r)
      (auto simp: initiatePayment_def Let_def save_donations nth_append split: if_splits)
qed

lemma handleCallback_ref_changes:
  assumes "i < length (donations w)"
    and "mswipeTransactionRef (donations (snd (handleCallback e cb w)) ! i)
           \<noteq> mswipeTransactionRef (donations w ! i)"
  shows "paymentStatus (donations w ! i) = PENDING
       \<and> mswipeTransactionRef (donations (snd (handleCallback e cb w)) ! i)
           = orElse (RRN cb) (IPG_ID cb)"
proof (cases "verifyCallback e cb")
  case (Invalid err)
  with assms show ?thesis by (simp add: handleCallback_def)
next
  case (Valid v)
  then have t: "transactionRef v = orElse (RRN cb) (IPG_ID cb)"
    by (auto simp: verifyCallback_def split: if_splits)
  show ?thesis
  proof (cases "findIndex (\<lambda>d. mswipeOrderId d = orderId v) (donations w)")
    case None
    with Valid assms show ?thesis by (simp add: handleCallback_def)
  next
    case (Some j)
    show ?thesis
    proof (cases "paymentStatus (donations w ! j) = PENDING")
      case False
      with Valid Some assms show ?thesis by (simp add: handleCallback_def Let_def)
    next
      case True
      show ?thesis
      proof (cases "j = i")
        case False
        with Valid Some True assms show ?thesis
          by (simp add: handleCallback_def Let_def save_donations sendDonationEmail_donations
              split: if_splits)
      next
        case j: True
        with Valid Some True assms t show ?thesis
          by (simp add: handleCallback_def Let_def save_donations sendDonationEmail_donations
              split: if_splits)
      qed
    qed
  qed
qed

lemma verifyTransaction_ref_changes:
  assumes "i < length (donations w)"
    and "mswipeTransactionRef (donations (snd (verifyTransaction e ref w)) ! i)
           \<noteq> mswipeTransactionRef (donations w ! i)"
  shows "paymentStatus (donations w ! i) = PENDING
       \<and> paymentStatus (donations (snd (verifyTransaction e ref w)) ! i) \<noteq> PENDING"
proof (cases "findIndex (\<lambda>d. donationRef d = ref) (donations w)")
  case None
  then have "snd (verifyTransaction e ref w) = w" by (simp add: verifyTransaction_def)
  with assms show ?thesis by simp
next
  case (Some j)
  obtain sr w1 where c: "checkTransactionStatus e (mswipeTransId (donations w ! j)) w = (sr, w1)"
    by (cases "checkTransactionStatus e (mswipeTransId (donations w ! j)) w")
  have w1: "donations w1 = donations w"
    using checkTransactionStatus_donations [of e "mswipeTransId (donations w ! j)" w] c by simp
  show ?thesis
  proof (cases sr)
    case (StatusFailed err)
    with Some c w1 assms show ?thesis
      by (simp add: verifyTransaction_def Let_def split: if_splits)
  next
    case (StatusOk sd)
    show ?thesis
    proof (cases "j = i")
      case False
      with StatusOk Some c w1 assms show ?thesis
        by (simp add: verifyTransaction_def Let_def save_donations sendDonationEmail_donations
            split: if_splits)
    next
      case True
      with StatusOk Some c w1 assms show ?thesis
        by (simp add: verifyTransaction_def Let_def save_donations sendDonationEmail_donations
            split: if_splits)
    qed
  qed
qed

text \<open>
  C4, as the code has it. The transaction reference is not tied to the status in both
  directions; it is written only together with a status, on a \<open>PENDING\<close> donation.
  \<open>initiatePayment\<close> never sets it: every donation it adds has none, whether the link
  was created or not, and it leaves the earlier donations as they were. When
  \<open>handleCallback\<close> changes the reference of a stored donation, that donation was
  \<open>PENDING\<close> and the new reference is the payload's \<open>RRN\<close>, or its \<open>IPG_ID\<close> when
  there is no \<open>RRN\<close>. When \<open>verifyTransaction\<close> changes it, the donation was \<open>PENDING\<close>
  and is settled by the same request.
\<close>

theorem transactionRef_written_with_status:
  "(length (donations w) \<le> i \<and> i < length (donations (snd (initiatePayment e b w))) \<longrightarrow>
      mswipeTransactionRef (donations (snd (initiatePayment e b w)) ! i) = None)
   \<and> (i < length (donations w) \<longrightarrow>
        donations (snd (initiatePayment e b w)) ! i = donations w ! i)
   \<and> (i < length (donations w)
       \<and> mswipeTransactionRef (donations (snd (handleCallback e cb w)) ! i)
           \<noteq> mswipeTransactionRef (donations w ! i) \<longrightarrow>
        paymentStatus (donations w ! i) = PENDING
        \<and> mswipeTransactionRef (donations (snd (handleCallback e cb w)) ! i)
            = orElse (RRN cb) (IPG_ID cb))
   \<and> (i < length (donations w)
       \<and> mswipeTransactionRef (donations (snd (verifyTransaction e ref w)) ! i)
           \<noteq> mswipeTransactionRef (donations w ! i) \<longrightarrow>
        paymentStatus (donations w ! i) = PENDING
        \<and> paymentStatus (donations (snd (verifyTransaction e ref w)) ! i) \<noteq> PENDING)"
  using initiatePayment_new_ref [of w i e b] initiatePayment_old [of i w e b]
    handleCallback_ref_changes [of i w e cb] verifyTransaction_ref_changes [of i w e ref]
  by blast

lemma handleCallback_hundred:
  "mswipeTransactionRef
     (donations (snd (handleCallback env0 (callback0 (Some ''approved'') (Some ''100'')) world1))
        ! 0) = Some ''RRN555''"
  by (simp add: handleCallback_def verifyCallback_callback0 world1_facts pending100_facts
      parseDigits_facts truthyNum_def strictNeqNum_def Let_def save_donations
      sendDonationEmail_donations)

theorem transactionRef_written_with_status_witness:
  "0 < length (donations world1)
   \<and> mswipeTransactionRef (donations world1 ! 0) = None
   \<and> mswipeTransactionRef
        (donations (snd (handleCallback env0 (callback0 (Some ''approved'') (Some ''100'')) world1))
           ! 0) = Some ''RRN555''
   \<and> paymentStatus (donations world1 ! 0) = PENDING
   \<and> orElse (RRN (callback0 (Some ''approved'') (Some ''100'')))
        (IPG_ID (callback0 (Some ''approved'') (Some ''100''))) = Some ''RRN555''"
  using transactionRef_written_with_status
    [where i = 0 and w = world1 and e = env0
       and cb = "callback0 (Some ''approved'') (Some ''100'')"]
  by (simp add: handleCallback_hundred world1_facts pending100_facts)

lemma initiatePayment_linkDown:
  "donations (snd (initiatePayment envLinkDown body0 world0))
     = [(newDonation envLinkDown body0 ''CMV170000000000042'' (generateOrderId envLinkDown))
          \<lparr>paymentStatus := FAILED, status := failed, updatedAt := 1700000000000\<rparr>]"
  using initiatePayment_failed_fst(2)
    [where e = envLinkDown and b = body0 and w = world0
       and ref = "''CMV170000000000042''" and oid = "generateOrderId envLinkDown"
       and d = "newDonation envLinkDown body0 ''CMV170000000000042''
                  (generateOrderId envLinkDown)"
       and err = "''Failed to create payment link''"]
    createOrder_linkDown
      [where oid = "generateOrderId envLinkDown" and r = "''CMV170000000000042''"
         and ds = "donations world0
           @ [newDonation envLinkDown body0 ''CMV170000000000042''
                (generateOrderId envLinkDown)]",
       OF generateOrderId_nonempty]
  by (simp add: envLinkDown_facts validationErrors_linkDown generateDonationRef_linkDown
      schemaAccepts_linkDown world0_def)

text \<open>
  The claim of C4 itself fails on the failure path of \<open>initiatePayment\<close>: the donation
  is \<open>FAILED\<close> and has no transaction reference.
\<close>

theorem failed_without_transactionRef_counterexample:
  "paymentStatus (donations (snd (initiatePayment envLinkDown body0 world0)) ! 0) = FAILED
   \<and> mswipeTransactionRef (donations (snd (initiatePayment envLinkDown body0 world0)) ! 0) = None
   \<and> \<not> (truthyStr (mswipeTransactionRef
                      (donations (snd (initiatePayment envLinkDown body0 world0)) ! 0))
          = (paymentStatus (donations (snd (initiatePayment envLinkDown body0 world0)) ! 0)
               \<noteq> PENDING))"
  by (simp add: initiatePayment_linkDown newDonation_def truthyStr_def)

lemma envNoExp_facts:
  "decodeJwt envNoExp = (\<lambda>t. Payload JUndefined)"
  "tokenAnswer envNoExp
     = Response \<lparr>t_status = JBool True, t_token = JStr ''tok'', t_msg = None\<rparr>"
  "dateNow envNoExp = 1700000000000"
  by (simp_all add: envNoExp_def env0_def)

lemma world0_cache: "\<not> cacheValid e world0"
  by (simp add: cacheValid_def world0_def)

text \<open>
  C8. The claim is that a fresh token whose expiry cannot be parsed is stored with the
  default lifetime of 25 days. The default is taken only when decoding the token throws.
  For a token whose payload decodes to an object without \<open>exp\<close>, the product
  \<open>undefined * 1000\<close> is \<open>NaN\<close> and is stored as the expiry: the token is returned and
  stored, but the cache is never valid, and the next call requests a token again.
\<close>

theorem token_without_exp_is_not_cached:
  "decodeJwt envNoExp (JStr ''tok'') = Payload JUndefined
   \<and> fst (generateToken envNoExp world0) = TokenOk (JStr ''tok'')
   \<and> cachedToken (snd (generateToken envNoExp world0)) = JStr ''tok''
   \<and> tokenExpiry (snd (generateToken envNoExp world0)) = Some NaN
   \<and> \<not> cacheValid envNoExp (snd (generateToken envNoExp world0))
   \<and> calls (snd (generateToken envNoExp (snd (generateToken envNoExp world0))))
       = [CreatePBLAuthToken, CreatePBLAuthToken]"
proof -
  have g: "generateToken envNoExp world0 =
      (TokenOk (JStr ''tok''),
       world0\<lparr>calls := calls world0 @ [CreatePBLAuthToken], cachedToken := JStr ''tok'',
               tokenExpiry := Some NaN\<rparr>)"
    using generateToken_fresh [OF world0_cache envNoExp_facts(2)]
    by (simp add: envNoExp_facts)
  have n: "\<not> cacheValid envNoExp
      (world0\<lparr>calls := calls world0 @ [CreatePBLAuthToken], cachedToken := JStr ''tok'',
               tokenExpiry := Some NaN\<rparr>)"
    by (simp add: cacheValid_def truthyNum_def)
  show ?thesis
    unfolding g using generateToken_calls [OF n] n by (simp add: envNoExp_facts world0_def)
qed

end
